theory Spec2Isabelle
  imports Complex_Main
begin

section \<open>The ApiClient facade of mcp-ragdocs (src/api-client.ts)\<close>

text \<open>
  The module reads four environment variables, refuses to load without the two Qdrant
  ones, and exports a class \<^verbatim>\<open>ApiClient\<close> with a constructor and the
  methods \<^verbatim>\<open>initBrowser\<close>, \<^verbatim>\<open>cleanup\<close>,
  \<^verbatim>\<open>getEmbeddings\<close>, \<^verbatim>\<open>generateRandomEmbedding\<close> and
  \<^verbatim>\<open>initCollection\<close>.

  Everything outside the file (Playwright, the Qdrant client, axios, the OpenAI SDK,
  \<^verbatim>\<open>Math.random\<close>) is a collaborator: a function over an external world
  \<open>'w\<close> that returns either the value thrown or the value returned, together with the
  new world. The methods are \<^verbatim>\<open>async\<close>; the model is their sequential
  semantics, one call running to completion before the next starts, so two calls that
  overlap in time are outside it. Every call to a collaborator is also written to a list
  of events, which is how a property such as "no second launch" is read off.
\<close>

subsection \<open>JavaScript values and thrown values\<close>

text \<open>
  A JavaScript number is a finite value or one of the three special values. Finite values
  are real numbers: rounding is not part of the model.
\<close>

datatype number = Fin real | NaN | PosInfinity | NegInfinity

datatype js =
    Undefined
  | Null
  | Bool bool
  | Num number
  | Str string
  | Arr "js list"
  | Obj "(string \<times> js) list"

text \<open>The error codes of the MCP SDK that the file names.\<close>

datatype ErrorCode = InvalidRequest | InternalError

text \<open>
  What a collaborator or the runtime throws: an instance of \<^verbatim>\<open>Error\<close>
  (its \<^verbatim>\<open>name\<close> and its \<^verbatim>\<open>message\<close>), or any other value
  (given by its string conversion). \<^verbatim>\<open>new McpError(code, message)\<close> is
  what the file itself throws besides \<^verbatim>\<open>new Error(message)\<close>.
\<close>

datatype js_error = ErrorObj string string | NonError string

datatype thrown = Raise js_error | McpError ErrorCode string

definition Error :: "string \<Rightarrow> js_error" where
  "Error msg = ErrorObj ''Error'' msg"

definition TypeError :: "string \<Rightarrow> js_error" where
  "TypeError msg = ErrorObj ''TypeError'' msg"

text \<open>\<^verbatim>\<open>error instanceof Error\<close> and \<^verbatim>\<open>error.message\<close>.\<close>

fun instanceof_Error :: "js_error \<Rightarrow> bool" where
  "instanceof_Error (ErrorObj n m) = True"
| "instanceof_Error (NonError s) = False"

fun message :: "js_error \<Rightarrow> string" where
  "message (ErrorObj n m) = m"
| "message (NonError s) = []"

text \<open>
  The string conversion used by a template literal. For an \<^verbatim>\<open>Error\<close> it is
  \<^verbatim>\<open>Error.prototype.toString\<close>: the name, a colon and the message, or only
  one of them when the other is empty.
\<close>

fun toString :: "js_error \<Rightarrow> string" where
  "toString (ErrorObj n m) = (if n = [] then m else if m = [] then n else n @ '': '' @ m)"
| "toString (NonError s) = s"

text \<open>Truthiness, as \<^verbatim>\<open>if\<close>, \<^verbatim>\<open>!\<close> and \<^verbatim>\<open>&&\<close> test it.\<close>

fun truthy :: "js \<Rightarrow> bool" where
  "truthy Undefined = False"
| "truthy Null = False"
| "truthy (Bool b) = b"
| "truthy (Num (Fin x)) = (x \<noteq> 0)"
| "truthy (Num NaN) = False"
| "truthy (Num PosInfinity) = True"
| "truthy (Num NegInfinity) = True"
| "truthy (Str s) = (s \<noteq> [])"
| "truthy (Arr xs) = True"
| "truthy (Obj kvs) = True"

text \<open>
  An environment variable is \<^verbatim>\<open>undefined\<close> or a string; it is truthy when it
  is a non-empty string.
\<close>

fun truthy_env :: "string option \<Rightarrow> bool" where
  "truthy_env None = False"
| "truthy_env (Some s) = (s \<noteq> [])"

text \<open>
  Reading a named property \<^verbatim>\<open>v.k\<close>, for the two names the file reads
  (\<^verbatim>\<open>data\<close> and \<^verbatim>\<open>embedding\<close>, which no built-in prototype
  defines): an object gives the property or \<^verbatim>\<open>undefined\<close>, a primitive or
  an array gives \<^verbatim>\<open>undefined\<close>, and \<^verbatim>\<open>undefined\<close> and
  \<^verbatim>\<open>null\<close> throw a \<^verbatim>\<open>TypeError\<close>.
\<close>

fun js_get :: "js \<Rightarrow> string \<Rightarrow> js_error + js" where
  "js_get Undefined k = Inl (TypeError (''Cannot read properties of undefined (reading '' @ k @ '')''))"
| "js_get Null k = Inl (TypeError (''Cannot read properties of null (reading '' @ k @ '')''))"
| "js_get (Obj kvs) k = Inr (case map_of kvs k of None \<Rightarrow> Undefined | Some v \<Rightarrow> v)"
| "js_get v k = Inr Undefined"

text \<open>
  Reading \<^verbatim>\<open>v[0]\<close>: the first element of an array, the first character of a
  string, the property \<^verbatim>\<open>"0"\<close> of an object.
\<close>

fun js_first :: "js \<Rightarrow> js_error + js" where
  "js_first Undefined = Inl (TypeError ''Cannot read properties of undefined (reading 0)'')"
| "js_first Null = Inl (TypeError ''Cannot read properties of null (reading 0)'')"
| "js_first (Arr xs) = Inr (case xs of [] \<Rightarrow> Undefined | x # _ \<Rightarrow> x)"
| "js_first (Str s) = Inr (case s of [] \<Rightarrow> Undefined | c # _ \<Rightarrow> Str [c])"
| "js_first (Obj kvs) = Inr (case map_of kvs ''0'' of None \<Rightarrow> Undefined | Some v \<Rightarrow> v)"
| "js_first v = Inr Undefined"

text \<open>\<^verbatim>\<open>s.endsWith(t)\<close> and \<^verbatim>\<open>s.includes(t)\<close> on strings.\<close>

definition endsWith :: "string \<Rightarrow> string \<Rightarrow> bool" where
  "endsWith s t = (length t \<le> length s \<and> drop (length s - length t) s = t)"

fun str_includes :: "string \<Rightarrow> string \<Rightarrow> bool" where
  "str_includes [] t = (t = [])"
| "str_includes (c # cs) t = (take (length t) (c # cs) = t \<or> str_includes cs t)"

subsection \<open>Configuration, handles and the instance\<close>

record process_env =
  OPENAI_API_KEY :: "string option"
  OPENAI_BASE_URL :: "string option"
  QDRANT_URL :: "string option"
  QDRANT_API_KEY :: "string option"

record QdrantClient =
  url :: "string option"
  apiKey :: "string option"

record OpenAI =
  openai_apiKey :: "string option"
  baseURL :: "string option"

type_synonym browser = nat

record ApiClient =
  qdrantClient :: QdrantClient
  openaiClient :: "OpenAI option"
  browser :: "browser option"

text \<open>The request body of both embedding paths, and the options of createCollection.\<close>

record embeddings_request =
  model :: string
  input :: string

record collection_config =
  vectors_size :: nat
  vectors_distance :: string
  default_segment_number :: nat
  memmap_threshold :: nat
  replication_factor :: nat

text \<open>What the code does to the outside, in the order it does it.\<close>

datatype event =
    NewQdrantClient QdrantClient
  | NewOpenAI OpenAI
  | Launch "js_error + browser"
  | Close browser
  | GetCollections
  | CreateCollection string collection_config
  | AxiosPost string embeddings_request "(string \<times> string) list"
  | EmbeddingsCreate embeddings_request
  | ConsoleError thrown
  | ConsoleWarn string

record 'w collaborators =
  chromium_launch :: "'w \<Rightarrow> (js_error + browser) \<times> 'w"
  browser_close :: "browser \<Rightarrow> 'w \<Rightarrow> (js_error + unit) \<times> 'w"
  getCollections :: "'w \<Rightarrow> (js_error + string list) \<times> 'w"
  createCollection :: "string \<Rightarrow> collection_config \<Rightarrow> 'w \<Rightarrow> (js_error + unit) \<times> 'w"
  axios_post :: "string \<Rightarrow> embeddings_request \<Rightarrow> (string \<times> string) list \<Rightarrow> 'w \<Rightarrow> (js_error + js) \<times> 'w"
  embeddings_create :: "embeddings_request \<Rightarrow> 'w \<Rightarrow> (js_error + js) \<times> 'w"
  Math_random :: "'w \<Rightarrow> real \<times> 'w"

text \<open>The instance, the world outside it and the events so far.\<close>

record 'w sys =
  client :: ApiClient
  world :: 'w
  trace :: "event list"

subsection \<open>Module level and constructor (lines 8 to 40)\<close>

definition module_init :: "process_env \<Rightarrow> js_error + unit" where
  "module_init env =
     (if \<not> truthy_env (QDRANT_URL env)
      then Inl (Error ''QDRANT_URL environment variable is required for cloud storage'')
      else if \<not> truthy_env (QDRANT_API_KEY env)
      then Inl (Error ''QDRANT_API_KEY environment variable is required for cloud storage'')
      else Inr ())"

definition constructor :: "process_env \<Rightarrow> ApiClient \<times> event list" where
  "constructor env =
     (let q = \<lparr>url = QDRANT_URL env, apiKey = QDRANT_API_KEY env\<rparr>;
          oa = \<lparr>openai_apiKey = OPENAI_API_KEY env, baseURL = OPENAI_BASE_URL env\<rparr>
      in if truthy_env (OPENAI_API_KEY env)
         then (\<lparr>qdrantClient = q, openaiClient = Some oa, browser = None\<rparr>,
               [NewQdrantClient q, NewOpenAI oa])
         else (\<lparr>qdrantClient = q, openaiClient = None, browser = None\<rparr>,
               [NewQdrantClient q]))"

text \<open>
  Loading the module and then running \<^verbatim>\<open>new ApiClient()\<close>: the class is only
  defined once the module-level checks have passed.
\<close>

definition import_and_construct :: "process_env \<Rightarrow> (js_error + ApiClient) \<times> event list" where
  "import_and_construct env =
     (case module_init env of
        Inl e \<Rightarrow> (Inl e, [])
      | Inr _ \<Rightarrow> (case constructor env of (c, evs) \<Rightarrow> (Inr c, evs)))"

subsection \<open>initBrowser and cleanup (lines 42 to 52)\<close>

definition initBrowser :: "'w collaborators \<Rightarrow> 'w sys \<Rightarrow> (js_error + unit) \<times> 'w sys" where
  "initBrowser c s =
     (case browser (client s) of
        None \<Rightarrow>
          (case chromium_launch c (world s) of
             (Inl e, w') \<Rightarrow>
               (Inl e, s\<lparr>world := w', trace := trace s @ [Launch (Inl e)]\<rparr>)
           | (Inr b, w') \<Rightarrow>
               (Inr (), s\<lparr>client := (client s)\<lparr>browser := Some b\<rparr>, world := w',
                          trace := trace s @ [Launch (Inr b)]\<rparr>))
      | Some b \<Rightarrow> (Inr (), s))"

definition cleanup :: "'w collaborators \<Rightarrow> 'w sys \<Rightarrow> (js_error + unit) \<times> 'w sys" where
  "cleanup c s =
     (case browser (client s) of
        Some b \<Rightarrow>
          (case browser_close c b (world s) of
             (r, w') \<Rightarrow> (r, s\<lparr>world := w', trace := trace s @ [Close b]\<rparr>))
      | None \<Rightarrow> (Inr (), s))"

subsection \<open>getEmbeddings and generateRandomEmbedding (lines 54 to 105)\<close>

text \<open>
  \<^verbatim>\<open>x / y\<close> on finite numbers: dividing by zero gives
  \<^verbatim>\<open>NaN\<close> or an infinity, never an exception.
\<close>

definition js_div :: "real \<Rightarrow> real \<Rightarrow> number" where
  "js_div x y =
     (if y \<noteq> 0 then Fin (x / y)
      else if x = 0 then NaN
      else if 0 < x then PosInfinity
      else NegInfinity)"

text \<open>
  \<^verbatim>\<open>Array.from({ length: dimension }, () => Math.random() * 2 - 1)\<close>: one call
  of \<^verbatim>\<open>Math.random\<close> per component, in index order.
\<close>

fun draw_components :: "'w collaborators \<Rightarrow> nat \<Rightarrow> 'w \<Rightarrow> real list \<times> 'w" where
  "draw_components c 0 w = ([], w)"
| "draw_components c (Suc n) w =
     (case Math_random c w of
        (r, w1) \<Rightarrow> (case draw_components c n w1 of
                      (vals, w2) \<Rightarrow> ((r * 2 - 1) # vals, w2)))"

definition magnitude_of :: "real list \<Rightarrow> real" where
  "magnitude_of embedding = sqrt (foldl (\<lambda>sum val. sum + val * val) 0 embedding)"

definition generateRandomEmbedding :: "'w collaborators \<Rightarrow> nat \<Rightarrow> 'w \<Rightarrow> number list \<times> 'w" where
  "generateRandomEmbedding c dimension w =
     (case draw_components c dimension w of
        (embedding, w') \<Rightarrow>
          (map (\<lambda>val. js_div val (magnitude_of embedding)) embedding, w'))"

text \<open>The URL, the body and the headers of the direct request (lines 59 to 70).\<close>

definition ollamaUrl :: "string \<Rightarrow> string" where
  "ollamaUrl base =
     (if endsWith base ''/v1'' then base @ ''/embeddings'' else base @ ''/v1/embeddings'')"

definition request_body :: "string \<Rightarrow> embeddings_request" where
  "request_body text = \<lparr>model = ''nomic-embed-text'', input = text\<rparr>"

definition request_headers :: "process_env \<Rightarrow> (string \<times> string) list" where
  "request_headers env =
     (''Content-Type'', ''application/json'') #
     (case OPENAI_API_KEY env of
        None \<Rightarrow> []
      | Some k \<Rightarrow> if k \<noteq> [] then [(''Authorization'', ''Bearer '' @ k)] else [])"

text \<open>
  The test of line 73,
  \<^verbatim>\<open>response.data && response.data.data && response.data.data[0] && response.data.data[0].embedding\<close>,
  with its short-circuit order, and the value line 74 returns. The argument is
  \<^verbatim>\<open>response.data\<close>.
\<close>

definition invalid_format :: js_error where
  "invalid_format = Error ''Invalid response format from Ollama embeddings API''"

definition extract_embedding :: "js \<Rightarrow> js_error + js" where
  "extract_embedding d =
     (if \<not> truthy d then Inl invalid_format
      else (case js_get d ''data'' of
        Inl e \<Rightarrow> Inl e
      | Inr dd \<Rightarrow>
          (if \<not> truthy dd then Inl invalid_format
           else (case js_first dd of
             Inl e \<Rightarrow> Inl e
           | Inr d0 \<Rightarrow>
               (if \<not> truthy d0 then Inl invalid_format
                else (case js_get d0 ''embedding'' of
                  Inl e \<Rightarrow> Inl e
                | Inr emb \<Rightarrow> (if truthy emb then Inr emb else Inl invalid_format)))))))"

text \<open>Line 90, \<^verbatim>\<open>response.data[0].embedding\<close>, on the SDK's response.\<close>

definition data0_embedding :: "js \<Rightarrow> js_error + js" where
  "data0_embedding response =
     (case js_get response ''data'' of
        Inl e \<Rightarrow> Inl e
      | Inr dd \<Rightarrow>
          (case js_first dd of
             Inl e \<Rightarrow> Inl e
           | Inr d0 \<Rightarrow> js_get d0 ''embedding''))"

definition raise :: "js_error + 'a \<Rightarrow> thrown + 'a" where
  "raise r = (case r of Inl e \<Rightarrow> Inl (Raise e) | Inr v \<Rightarrow> Inr v)"

text \<open>
  The body of the \<^verbatim>\<open>try\<close> block, lines 56 to 91. The test
  \<^verbatim>\<open>if (OPENAI_BASE_URL)\<close> holds for a non-empty string.
\<close>

definition direct_http :: "'w collaborators \<Rightarrow> process_env \<Rightarrow> string \<Rightarrow> string \<Rightarrow> 'w sys \<Rightarrow> (thrown + js) \<times> 'w sys" where
  "direct_http c env base text s =
     (case axios_post c (ollamaUrl base) (request_body text) (request_headers env) (world s) of
        (r, w') \<Rightarrow>
          (let s' = s\<lparr>world := w',
                      trace := trace s @ [AxiosPost (ollamaUrl base) (request_body text) (request_headers env)]\<rparr>
           in case r of
                Inl e \<Rightarrow> (Inl (Raise e), s')
              | Inr d \<Rightarrow> (raise (extract_embedding d), s')))"

definition via_sdk :: "'w collaborators \<Rightarrow> string \<Rightarrow> 'w sys \<Rightarrow> (thrown + js) \<times> 'w sys" where
  "via_sdk c text s =
     (case openaiClient (client s) of
        None \<Rightarrow> (Inl (McpError InvalidRequest ''OpenAI API key not configured''), s)
      | Some oa \<Rightarrow>
          (case embeddings_create c (request_body text) (world s) of
             (r, w') \<Rightarrow>
               (let s' = s\<lparr>world := w', trace := trace s @ [EmbeddingsCreate (request_body text)]\<rparr>
                in case r of
                     Inl e \<Rightarrow> (Inl (Raise e), s')
                   | Inr response \<Rightarrow> (raise (data0_embedding response), s'))))"

definition try_block :: "'w collaborators \<Rightarrow> process_env \<Rightarrow> string \<Rightarrow> 'w sys \<Rightarrow> (thrown + js) \<times> 'w sys" where
  "try_block c env text s =
     (case OPENAI_BASE_URL env of
        None \<Rightarrow> via_sdk c text s
      | Some base \<Rightarrow> if base \<noteq> [] then direct_http c env base text s else via_sdk c text s)"

text \<open>The \<^verbatim>\<open>catch\<close> block, lines 92 to 98.\<close>

definition catch_block :: "'w collaborators \<Rightarrow> thrown \<Rightarrow> 'w sys \<Rightarrow> (thrown + js) \<times> 'w sys" where
  "catch_block c error s =
     (case generateRandomEmbedding c 768 (world s) of
        (v, w') \<Rightarrow>
          (Inr (Arr (map Num v)),
           s\<lparr>world := w',
             trace := trace s @ [ConsoleError error, ConsoleWarn ''Generating fallback random embeddings'']\<rparr>))"

definition getEmbeddings :: "'w collaborators \<Rightarrow> process_env \<Rightarrow> string \<Rightarrow> 'w sys \<Rightarrow> (thrown + js) \<times> 'w sys" where
  "getEmbeddings c env text s =
     (case try_block c env text s of
        (Inl error, s') \<Rightarrow> catch_block c error s'
      | (Inr v, s') \<Rightarrow> (Inr v, s'))"

subsection \<open>initCollection (lines 107 to 145)\<close>

definition collection_options :: collection_config where
  "collection_options =
     \<lparr>vectors_size = 768, vectors_distance = ''Cosine'', default_segment_number = 2,
      memmap_threshold = 20000, replication_factor = 2\<rparr>"

text \<open>The \<^verbatim>\<open>catch\<close> block, lines 126 to 144: what is thrown for a caught error.\<close>

definition rethrow :: "js_error \<Rightarrow> thrown" where
  "rethrow error =
     (if instanceof_Error error \<and> str_includes (message error) ''unauthorized''
      then McpError InvalidRequest
             ''Failed to authenticate with Qdrant cloud. Please check your API key.''
      else if instanceof_Error error \<and>
              (str_includes (message error) ''ECONNREFUSED'' \<or>
               str_includes (message error) ''ETIMEDOUT'')
      then McpError InternalError
             ''Failed to connect to Qdrant cloud. Please check your QDRANT_URL.''
      else McpError InternalError
             (''Failed to initialize Qdrant cloud collection: '' @ toString error))"

definition initCollection :: "'w collaborators \<Rightarrow> string \<Rightarrow> 'w sys \<Rightarrow> (thrown + unit) \<times> 'w sys" where
  "initCollection c COLLECTION_NAME s =
     (case getCollections c (world s) of
        (r, w1) \<Rightarrow>
          (let s1 = s\<lparr>world := w1, trace := trace s @ [GetCollections]\<rparr>
           in case r of
                Inl error \<Rightarrow> (Inl (rethrow error), s1)
              | Inr collections \<Rightarrow>
                  if list_ex (\<lambda>name. name = COLLECTION_NAME) collections
                  then (Inr (), s1)
                  else
                    (case createCollection c COLLECTION_NAME collection_options w1 of
                       (r2, w2) \<Rightarrow>
                         (let s2 = s1\<lparr>world := w2,
                                      trace := trace s1 @ [CreateCollection COLLECTION_NAME collection_options]\<rparr>
                          in case r2 of
                               Inl error \<Rightarrow> (Inl (rethrow error), s2)
                             | Inr _ \<Rightarrow> (Inr (), s2)))))"

subsection \<open>Callers, counters and example collaborators\<close>

text \<open>
  A caller that invokes the two browser methods one after the other on the same instance,
  going on whether a call returned or threw.
\<close>

datatype call = InitBrowser | Cleanup

fun run :: "'w collaborators \<Rightarrow> call list \<Rightarrow> 'w sys \<Rightarrow> 'w sys" where
  "run c [] s = s"
| "run c (InitBrowser # calls) s = run c calls (snd (initBrowser c s))"
| "run c (Cleanup # calls) s = run c calls (snd (cleanup c s))"

fun is_launch :: "event \<Rightarrow> bool" where
  "is_launch (Launch r) = True"
| "is_launch ev = False"

fun is_launched :: "event \<Rightarrow> bool" where
  "is_launched (Launch (Inr b)) = True"
| "is_launched ev = False"

fun is_create :: "event \<Rightarrow> bool" where
  "is_create (CreateCollection n cfg) = True"
| "is_create ev = False"

fun is_sdk_call :: "event \<Rightarrow> bool" where
  "is_sdk_call (EmbeddingsCreate b) = True"
| "is_sdk_call ev = False"




text \<open>
  A world in which every collaborator answers: browsers are numbered as they are launched,
  the vector store lists the names created so far, the embedding endpoints answer with a
  three-component embedding, and \<^verbatim>\<open>Math.random\<close> gives three quarters.
\<close>

record example_world =
  launched :: nat
  closed :: "browser list"
  stored :: "string list"

definition short_response :: js where
  "short_response =
     Obj [(''data'', Arr [Obj [(''embedding'', Arr [Num (Fin 1), Num (Fin 2), Num (Fin 3)])]])]"

definition example :: "example_world collaborators" where
  "example =
     \<lparr>chromium_launch = (\<lambda>w. (Inr (launched w), w\<lparr>launched := Suc (launched w)\<rparr>)),
      browser_close = (\<lambda>b w. (Inr (), w\<lparr>closed := closed w @ [b]\<rparr>)),
      getCollections = (\<lambda>w. (Inr (stored w), w)),
      createCollection = (\<lambda>n cfg w. (Inr (), w\<lparr>stored := stored w @ [n]\<rparr>)),
      axios_post = (\<lambda>u b h w. (Inr short_response, w)),
      embeddings_create = (\<lambda>b w. (Inr short_response, w)),
      Math_random = (\<lambda>w. (3 / 4, w))\<rparr>"

definition example_env :: process_env where
  "example_env =
     \<lparr>OPENAI_API_KEY = Some ''sk-test'', OPENAI_BASE_URL = Some ''http://localhost:11434'',
      QDRANT_URL = Some ''https://qdrant.example'', QDRANT_API_KEY = Some ''qk''\<rparr>"

definition qdrant_only_env :: process_env where
  "qdrant_only_env =
     \<lparr>OPENAI_API_KEY = None, OPENAI_BASE_URL = None,
      QDRANT_URL = Some ''https://qdrant.example'', QDRANT_API_KEY = Some ''qk''\<rparr>"

definition fresh :: "process_env \<Rightarrow> example_world sys" where
  "fresh env =
     \<lparr>client = fst (constructor env),
      world = \<lparr>launched = 0, closed = [], stored = []\<rparr>,
      trace = []\<rparr>"

text \<open>A vector store that refuses the connection.\<close>

definition refusing :: "example_world collaborators" where
  "refusing = example\<lparr>getCollections :=
     (\<lambda>w. (Inl (ErrorObj ''Error'' ''connect ECONNREFUSED 127.0.0.1:6333''), w))\<rparr>"

text \<open>A vector store that answers the query with a 401.\<close>

definition rejecting :: "example_world collaborators" where
  "rejecting = example\<lparr>getCollections :=
     (\<lambda>w. (Inl (ErrorObj ''Error'' ''Unauthorized''), w))\<rparr>"


section \<open>Auxiliary facts\<close>

subsection \<open>Strings\<close>

lemma endsWith_iff: "endsWith s t \<longleftrightarrow> (\<exists>p. s = p @ t)"
proof
  assume "endsWith s t"
  then have "s = take (length s - length t) s @ t"
    by (metis append_take_drop_id endsWith_def)
  then show "\<exists>p. s = p @ t" by blast
next
  assume "\<exists>p. s = p @ t"
  then show "endsWith s t" by (auto simp: endsWith_def)
qed

lemma take_eq_iff_prefix: "take (length t) s = t \<longleftrightarrow> (\<exists>q. s = t @ q)"
proof
  assume "take (length t) s = t"
  then have "s = t @ drop (length t) s" by (metis append_take_drop_id)
  then show "\<exists>q. s = t @ q" by blast
next
  assume "\<exists>q. s = t @ q"
  then show "take (length t) s = t" by auto
qed

lemma str_includes_iff: "str_includes s t \<longleftrightarrow> (\<exists>p q. s = p @ t @ q)"
proof (induction s)
  case Nil
  then show ?case by auto
next
  case (Cons c cs)
  show ?case
  proof
    assume "str_includes (c # cs) t"
    then consider "take (length t) (c # cs) = t" | "str_includes cs t" by auto
    then show "\<exists>p q. c # cs = p @ t @ q"
    proof cases
      case 1
      then obtain q where "c # cs = t @ q" using take_eq_iff_prefix by blast
      then have "c # cs = [] @ t @ q" by simp
      then show ?thesis by blast
    next
      case 2
      then obtain p q where "cs = p @ t @ q" using Cons.IH by blast
      then have "c # cs = (c # p) @ t @ q" by simp
      then show ?thesis by blast
    qed
  next
    assume "\<exists>p q. c # cs = p @ t @ q"
    then obtain p q where pq: "c # cs = p @ t @ q" by blast
    show "str_includes (c # cs) t"
    proof (cases p)
      case Nil
      with pq have "take (length t) (c # cs) = t" by simp
      then show ?thesis by simp
    next
      case (Cons a p')
      with pq have "cs = p' @ t @ q" by simp
      then have "str_includes cs t" using Cons.IH by blast
      then show ?thesis by simp
    qed
  qed
qed

subsection \<open>The browser methods\<close>

lemma cleanup_browser: "browser (client (snd (cleanup c s))) = browser (client s)"
  by (simp add: cleanup_def split: option.splits prod.splits)

lemma cleanup_None: "browser (client s) = None \<Longrightarrow> cleanup c s = (Inr (), s)"
  by (simp add: cleanup_def)

lemma cleanup_Some:
  "browser (client s) = Some b \<Longrightarrow>
   cleanup c s = (fst (browser_close c b (world s)),
                  s\<lparr>world := snd (browser_close c b (world s)), trace := trace s @ [Close b]\<rparr>)"
  by (simp add: cleanup_def split: prod.splits)

lemma initBrowser_Some: "browser (client s) = Some b \<Longrightarrow> initBrowser c s = (Inr (), s)"
  by (simp add: initBrowser_def)

lemma initBrowser_launch_ok:
  "browser (client s) = None \<Longrightarrow> chromium_launch c (world s) = (Inr b, w') \<Longrightarrow>
   initBrowser c s =
     (Inr (), s\<lparr>client := (client s)\<lparr>browser := Some b\<rparr>, world := w',
                trace := trace s @ [Launch (Inr b)]\<rparr>)"
  by (simp add: initBrowser_def)

lemma initBrowser_launch_fails:
  "browser (client s) = None \<Longrightarrow> chromium_launch c (world s) = (Inl e, w') \<Longrightarrow>
   initBrowser c s = (Inl e, s\<lparr>world := w', trace := trace s @ [Launch (Inl e)]\<rparr>)"
  by (simp add: initBrowser_def)

lemma run_present:
  "browser (client s) = Some b \<Longrightarrow>
   browser (client (run c calls s)) = Some b \<and>
   filter is_launch (trace (run c calls s)) = filter is_launch (trace s)"
proof (induction calls arbitrary: s)
  case Nil
  then show ?case by simp
next
  case (Cons x calls)
  show ?case
  proof (cases x)
    case InitBrowser
    with Cons show ?thesis by (simp add: initBrowser_Some)
  next
    case Cleanup
    have b: "browser (client (snd (cleanup c s))) = Some b"
      using Cons.prems by (simp add: cleanup_browser)
    have t: "filter is_launch (trace (snd (cleanup c s))) = filter is_launch (trace s)"
      using Cons.prems by (simp add: cleanup_Some)
    from Cons.IH [OF b] t Cleanup show ?thesis by simp
  qed
qed

lemma run_launched:
  "length (filter is_launched (trace (run c calls s))) \<le>
     length (filter is_launched (trace s)) + (case browser (client s) of None \<Rightarrow> 1 | Some b \<Rightarrow> 0)"
proof (induction calls arbitrary: s)
  case Nil
  then show ?case by simp
next
  case (Cons x calls)
  show ?case
  proof (cases x)
    case Cleanup
    have "browser (client (snd (cleanup c s))) = browser (client s)" by (rule cleanup_browser)
    moreover have "filter is_launched (trace (snd (cleanup c s))) = filter is_launched (trace s)"
      by (simp add: cleanup_def split: option.splits prod.splits)
    ultimately show ?thesis using Cons.IH [of "snd (cleanup c s)"] Cleanup by simp
  next
    case InitBrowser
    show ?thesis
    proof (cases "browser (client s)")
      case (Some b)
      then show ?thesis using Cons.IH [of s] InitBrowser by (simp add: initBrowser_Some)
    next
      case None
      obtain r w' where l: "chromium_launch c (world s) = (r, w')" by (cases "chromium_launch c (world s)")
      show ?thesis
      proof (cases r)
        case (Inl e)
        with None l have "initBrowser c s = (Inl e, s\<lparr>world := w', trace := trace s @ [Launch (Inl e)]\<rparr>)"
          by (simp add: initBrowser_launch_fails)
        then show ?thesis
          using Cons.IH [of "s\<lparr>world := w', trace := trace s @ [Launch (Inl e)]\<rparr>"] None InitBrowser
          by simp
      next
        case (Inr b)
        with None l have "initBrowser c s =
          (Inr (), s\<lparr>client := (client s)\<lparr>browser := Some b\<rparr>, world := w',
                trace := trace s @ [Launch (Inr b)]\<rparr>)"
          by (simp add: initBrowser_launch_ok)
        then show ?thesis
          using Cons.IH [of "s\<lparr>client := (client s)\<lparr>browser := Some b\<rparr>, world := w',
                trace := trace s @ [Launch (Inr b)]\<rparr>"] None InitBrowser
          by simp
      qed
    qed
  qed
qed

subsection \<open>initCollection\<close>

lemma initCollection_query_fails:
  "getCollections c (world s) = (Inl e, w1) \<Longrightarrow>
   initCollection c n s = (Inl (rethrow e), s\<lparr>world := w1, trace := trace s @ [GetCollections]\<rparr>)"
  by (simp add: initCollection_def)

lemma initCollection_exists:
  "getCollections c (world s) = (Inr cs, w1) \<Longrightarrow> n \<in> set cs \<Longrightarrow>
   initCollection c n s = (Inr (), s\<lparr>world := w1, trace := trace s @ [GetCollections]\<rparr>)"
  by (simp add: initCollection_def list_ex_iff)

lemma initCollection_creates:
  "getCollections c (world s) = (Inr cs, w1) \<Longrightarrow> n \<notin> set cs \<Longrightarrow>
   createCollection c n collection_options w1 = (r, w2) \<Longrightarrow>
   initCollection c n s =
     ((case r of Inl e \<Rightarrow> Inl (rethrow e) | Inr u \<Rightarrow> Inr ()),
      s\<lparr>world := w2, trace := trace s @ [GetCollections, CreateCollection n collection_options]\<rparr>)"
  by (simp add: initCollection_def list_ex_iff split: sum.splits)

lemma initCollection_ok_lists:
  assumes created: "\<And>w w'. createCollection c n collection_options w = (Inr (), w') \<Longrightarrow>
             \<exists>cs w''. getCollections c w' = (Inr cs, w'') \<and> n \<in> set cs"
    and listed: "\<And>w cs w'. getCollections c w = (Inr cs, w') \<Longrightarrow> n \<in> set cs \<Longrightarrow>
             \<exists>cs' w''. getCollections c w' = (Inr cs', w'') \<and> n \<in> set cs'"
    and ok: "initCollection c n s = (Inr (), s1)"
  shows "\<exists>cs w''. getCollections c (world s1) = (Inr cs, w'') \<and> n \<in> set cs"
proof -
  obtain r w1 where g: "getCollections c (world s) = (r, w1)"
    by (cases "getCollections c (world s)")
  show ?thesis
  proof (cases r)
    case (Inl e)
    with g ok show ?thesis by (simp add: initCollection_query_fails)
  next
    case (Inr cs)
    show ?thesis
    proof (cases "n \<in> set cs")
      case True
      with g Inr ok have "world s1 = w1" by (auto simp: initCollection_exists)
      with listed [of "world s" cs w1] g Inr True show ?thesis by simp
    next
      case False
      obtain r2 w2 where cr: "createCollection c n collection_options w1 = (r2, w2)"
        by (cases "createCollection c n collection_options w1")
      from initCollection_creates [of c s cs w1 n r2 w2] g Inr False cr ok
      have "r2 = Inr ()" and "world s1 = w2" by (auto split: sum.splits)
      with created [of w1 w2] cr show ?thesis by simp
    qed
  qed
qed

lemma initCollection_creations:
  "length (filter is_create (trace (snd (initCollection c n s))))
     \<le> length (filter is_create (trace s)) + 1"
  by (simp add: initCollection_def Let_def split: prod.splits sum.splits)

lemma initCollection_client: "client (snd (initCollection c n s)) = client s"
  by (auto simp: initCollection_def Let_def split: prod.splits sum.splits)

subsection \<open>The fallback vector\<close>

















subsection \<open>getEmbeddings\<close>

lemma direct_http_client: "client (snd (direct_http c env base text s)) = client s"
  by (auto simp: direct_http_def Let_def split: prod.splits sum.splits)

lemma via_sdk_client: "client (snd (via_sdk c text s)) = client s"
  by (auto simp: via_sdk_def Let_def split: prod.splits sum.splits option.splits)

lemma try_block_client: "client (snd (try_block c env text s)) = client s"
  by (simp add: try_block_def direct_http_client via_sdk_client split: option.splits)

lemma catch_block_client: "client (snd (catch_block c e s)) = client s"
  by (simp add: catch_block_def split: prod.splits)

lemma getEmbeddings_client: "client (snd (getEmbeddings c env text s)) = client s"
proof -
  obtain r s1 where t: "try_block c env text s = (r, s1)" by (cases "try_block c env text s")
  have "client (snd (try_block c env text s)) = client s" by (rule try_block_client)
  with t have "client s1 = client s" by simp
  with t show ?thesis by (cases r) (simp_all add: getEmbeddings_def catch_block_client)
qed

lemma catch_block_result:
  "catch_block c error s =
     (Inr (Arr (map Num (fst (generateRandomEmbedding c 768 (world s))))),
      s\<lparr>world := snd (generateRandomEmbedding c 768 (world s)),
        trace := trace s @ [ConsoleError error, ConsoleWarn ''Generating fallback random embeddings'']\<rparr>)"
  by (simp add: catch_block_def split: prod.splits)

lemma getEmbeddings_caught:
  "try_block c env text s = (Inl error, s1) \<Longrightarrow>
   getEmbeddings c env text s =
     (Inr (Arr (map Num (fst (generateRandomEmbedding c 768 (world s1))))),
      s1\<lparr>world := snd (generateRandomEmbedding c 768 (world s1)),
         trace := trace s1 @ [ConsoleError error, ConsoleWarn ''Generating fallback random embeddings'']\<rparr>)"
  by (simp add: getEmbeddings_def catch_block_result)

lemma getEmbeddings_passed:
  "try_block c env text s = (Inr v, s1) \<Longrightarrow> getEmbeddings c env text s = (Inr v, s1)"
  by (simp add: getEmbeddings_def)

lemma getEmbeddings_returns: "\<exists>v s'. getEmbeddings c env text s = (Inr v, s')"
proof -
  obtain r s1 where t: "try_block c env text s = (r, s1)" by (cases "try_block c env text s")
  show ?thesis
  proof (cases r)
    case (Inl error)
    with t show ?thesis using getEmbeddings_caught by blast
  next
    case (Inr v)
    with t show ?thesis using getEmbeddings_passed by blast
  qed
qed

lemma try_block_direct:
  "OPENAI_BASE_URL env = Some base \<Longrightarrow> base \<noteq> [] \<Longrightarrow>
   try_block c env text s = direct_http c env base text s"
  by (simp add: try_block_def)

lemma try_block_sdk:
  "\<not> truthy_env (OPENAI_BASE_URL env) \<Longrightarrow> try_block c env text s = via_sdk c text s"
  by (cases "OPENAI_BASE_URL env") (simp_all add: try_block_def)

lemma direct_http_fails:
  "axios_post c (ollamaUrl base) (request_body text) (request_headers env) (world s) = (Inl e, w') \<Longrightarrow>
   direct_http c env base text s =
     (Inl (Raise e),
      s\<lparr>world := w',
        trace := trace s @ [AxiosPost (ollamaUrl base) (request_body text) (request_headers env)]\<rparr>)"
  by (simp add: direct_http_def)

lemma direct_http_answers:
  "axios_post c (ollamaUrl base) (request_body text) (request_headers env) (world s) = (Inr d, w') \<Longrightarrow>
   direct_http c env base text s =
     (raise (extract_embedding d),
      s\<lparr>world := w',
        trace := trace s @ [AxiosPost (ollamaUrl base) (request_body text) (request_headers env)]\<rparr>)"
  by (simp add: direct_http_def)

lemma via_sdk_no_client:
  "openaiClient (client s) = None \<Longrightarrow>
   via_sdk c text s = (Inl (McpError InvalidRequest ''OpenAI API key not configured''), s)"
  by (simp add: via_sdk_def)

lemma via_sdk_fails:
  "openaiClient (client s) = Some oa \<Longrightarrow>
   embeddings_create c (request_body text) (world s) = (Inl e, w') \<Longrightarrow>
   via_sdk c text s =
     (Inl (Raise e), s\<lparr>world := w', trace := trace s @ [EmbeddingsCreate (request_body text)]\<rparr>)"
  by (simp add: via_sdk_def)

lemma via_sdk_answers:
  "openaiClient (client s) = Some oa \<Longrightarrow>
   embeddings_create c (request_body text) (world s) = (Inr response, w') \<Longrightarrow>
   via_sdk c text s =
     (raise (data0_embedding response),
      s\<lparr>world := w', trace := trace s @ [EmbeddingsCreate (request_body text)]\<rparr>)"
  by (simp add: via_sdk_def)

lemma truthy_js_get: "truthy d \<Longrightarrow> \<exists>v. js_get d k = Inr v"
  by (cases d) auto

lemma truthy_js_first: "truthy d \<Longrightarrow> \<exists>v. js_first d = Inr v"
  by (cases d) auto

lemma extract_embedding_present:
  "truthy d \<Longrightarrow> js_get d ''data'' = Inr dd \<Longrightarrow> truthy dd \<Longrightarrow> js_first dd = Inr d0 \<Longrightarrow>
   truthy d0 \<Longrightarrow> js_get d0 ''embedding'' = Inr emb \<Longrightarrow> truthy emb \<Longrightarrow>
   extract_embedding d = Inr emb"
  by (simp add: extract_embedding_def)

lemma extract_embedding_absent:
  assumes "\<not> (\<exists>dd d0 emb. truthy d \<and> js_get d ''data'' = Inr dd \<and> truthy dd \<and>
                 js_first dd = Inr d0 \<and> truthy d0 \<and> js_get d0 ''embedding'' = Inr emb \<and> truthy emb)"
  shows "extract_embedding d = Inl invalid_format"
proof (cases "truthy d")
  case False
  then show ?thesis by (simp add: extract_embedding_def)
next
  case d: True
  then obtain dd where dd: "js_get d ''data'' = Inr dd" using truthy_js_get by blast
  show ?thesis
  proof (cases "truthy dd")
    case False
    with d dd show ?thesis by (simp add: extract_embedding_def)
  next
    case tdd: True
    then obtain d0 where d0: "js_first dd = Inr d0" using truthy_js_first by blast
    show ?thesis
    proof (cases "truthy d0")
      case False
      with d dd tdd d0 show ?thesis by (simp add: extract_embedding_def)
    next
      case td0: True
      then obtain emb where emb: "js_get d0 ''embedding'' = Inr emb" using truthy_js_get by blast
      with assms d dd tdd d0 td0 have "\<not> truthy emb" by blast
      with d dd tdd d0 td0 emb show ?thesis by (simp add: extract_embedding_def)
    qed
  qed
qed


lemma ollamaUrl_cases:
  "ollamaUrl base = (if \<exists>p. base = p @ ''/v1'' then base @ ''/embeddings'' else base @ ''/v1/embeddings'')"
  by (simp add: ollamaUrl_def endsWith_iff)

lemma request_headers_cases:
  "request_headers env =
     (''Content-Type'', ''application/json'') #
     (if truthy_env (OPENAI_API_KEY env)
      then [(''Authorization'', ''Bearer '' @ the (OPENAI_API_KEY env))] else [])"
  by (cases "OPENAI_API_KEY env") (simp_all add: request_headers_def)


lemma getEmbeddings_direct_trace:
  assumes "OPENAI_BASE_URL env = Some base" and "base \<noteq> []"
  shows "\<exists>rest. trace (snd (getEmbeddings c env text s)) =
           trace s @ AxiosPost (ollamaUrl base) (request_body text) (request_headers env) # rest \<and>
           filter is_sdk_call rest = []"
proof -
  obtain r w' where p: "axios_post c (ollamaUrl base) (request_body text) (request_headers env) (world s) = (r, w')"
    by (cases "axios_post c (ollamaUrl base) (request_body text) (request_headers env) (world s)")
  let ?s' = "s\<lparr>world := w',
        trace := trace s @ [AxiosPost (ollamaUrl base) (request_body text) (request_headers env)]\<rparr>"
  have "\<exists>x. direct_http c env base text s = (x, ?s')"
    using p by (cases r) (simp_all add: direct_http_fails direct_http_answers)
  then obtain x where t: "try_block c env text s = (x, ?s')"
    using assms by (auto simp: try_block_direct)
  show ?thesis
  proof (cases x)
    case (Inl error)
    with t show ?thesis by (simp add: getEmbeddings_caught)
  next
    case (Inr v)
    with t show ?thesis by (simp add: getEmbeddings_passed)
  qed
qed

section \<open>The properties\<close>

subsection \<open>Construction\<close>

text \<open>
  \<^bold>\<open>C8.\<close> If \<^verbatim>\<open>QDRANT_URL\<close> or \<^verbatim>\<open>QDRANT_API_KEY\<close> is
  absent from the environment, loading the module throws an \<^verbatim>\<open>Error\<close>,
  no instance comes into being and the list of events is empty: no Qdrant client, no
  OpenAI client and no browser has been created.
\<close>

theorem construction_requires_qdrant_config:
  "QDRANT_URL env = None \<or> QDRANT_API_KEY env = None \<Longrightarrow>
   \<exists>msg. import_and_construct env = (Inl (Error msg), [])"
  by (auto simp: import_and_construct_def module_init_def)

theorem construction_requires_qdrant_config_witness:
  "QDRANT_API_KEY (example_env\<lparr>QDRANT_API_KEY := None\<rparr>) = None \<and>
   (\<exists>msg. import_and_construct (example_env\<lparr>QDRANT_API_KEY := None\<rparr>) = (Inl (Error msg), []))"
proof -
  have k: "QDRANT_API_KEY (example_env\<lparr>QDRANT_API_KEY := None\<rparr>) = None" by simp
  then have "QDRANT_URL (example_env\<lparr>QDRANT_API_KEY := None\<rparr>) = None \<or>
             QDRANT_API_KEY (example_env\<lparr>QDRANT_API_KEY := None\<rparr>) = None" by (rule disjI2)
  then have "\<exists>msg. import_and_construct (example_env\<lparr>QDRANT_API_KEY := None\<rparr>) = (Inl (Error msg), [])"
    by (rule construction_requires_qdrant_config)
  with k show ?thesis by (rule conjI)
qed

subsection \<open>Browser lifecycle\<close>

text \<open>
  \<^bold>\<open>C7.\<close> With a handle stored, \<open>initBrowser\<close> returns and changes
  nothing: no launch. With none stored, it calls the launcher once; when the launcher
  answers with a browser it stores that handle, a second call right after does nothing,
  and the two calls together have made exactly one launch; when the launcher throws,
  the error reaches the caller and no handle is stored. Whatever the launcher does, two
  calls in succession create at most one browser.
\<close>

theorem initBrowser_idempotent:
  "(\<forall>b. browser (client s) = Some b \<longrightarrow> initBrowser c s = (Inr (), s)) \<and>
   (\<forall>b w'. browser (client s) = None \<and> chromium_launch c (world s) = (Inr b, w') \<longrightarrow>
      initBrowser c s =
        (Inr (), s\<lparr>client := (client s)\<lparr>browser := Some b\<rparr>, world := w',
                   trace := trace s @ [Launch (Inr b)]\<rparr>) \<and>
      initBrowser c (snd (initBrowser c s)) = (Inr (), snd (initBrowser c s)) \<and>
      trace (run c [InitBrowser, InitBrowser] s) = trace s @ [Launch (Inr b)]) \<and>
   (\<forall>e w'. browser (client s) = None \<and> chromium_launch c (world s) = (Inl e, w') \<longrightarrow>
      initBrowser c s = (Inl e, s\<lparr>world := w', trace := trace s @ [Launch (Inl e)]\<rparr>)) \<and>
   (browser (client s) = None \<longrightarrow>
      length (filter is_launched (trace (run c [InitBrowser, InitBrowser] s)))
        \<le> length (filter is_launched (trace s)) + 1)"
proof (intro conjI allI impI)
  fix b assume "browser (client s) = Some b"
  then show "initBrowser c s = (Inr (), s)" by (rule initBrowser_Some)
next
  fix b w' assume a: "browser (client s) = None \<and> chromium_launch c (world s) = (Inr b, w')"
  then show first: "initBrowser c s =
        (Inr (), s\<lparr>client := (client s)\<lparr>browser := Some b\<rparr>, world := w',
                   trace := trace s @ [Launch (Inr b)]\<rparr>)"
    by (simp add: initBrowser_launch_ok)
  then show second: "initBrowser c (snd (initBrowser c s)) = (Inr (), snd (initBrowser c s))"
    by (simp add: initBrowser_Some)
  from first second show "trace (run c [InitBrowser, InitBrowser] s) = trace s @ [Launch (Inr b)]"
    by simp
next
  fix e w' assume "browser (client s) = None \<and> chromium_launch c (world s) = (Inl e, w')"
  then show "initBrowser c s = (Inl e, s\<lparr>world := w', trace := trace s @ [Launch (Inl e)]\<rparr>)"
    by (simp add: initBrowser_launch_fails)
next
  assume "browser (client s) = None"
  then show "length (filter is_launched (trace (run c [InitBrowser, InitBrowser] s)))
        \<le> length (filter is_launched (trace s)) + 1"
    using run_launched [of c "[InitBrowser, InitBrowser]" s] by simp
qed

theorem initBrowser_idempotent_witness:
  "browser (client (fresh example_env)) = None \<and>
   chromium_launch example (world (fresh example_env)) =
     (Inr 0, \<lparr>launched = 1, closed = [], stored = []\<rparr>) \<and>
   browser (client (snd (initBrowser example (fresh example_env)))) = Some 0 \<and>
   trace (run example [InitBrowser, InitBrowser] (fresh example_env)) = [Launch (Inr 0)]"
proof -
  let ?s = "fresh example_env"
  have n: "browser (client ?s) = None" by (simp add: fresh_def constructor_def Let_def)
  have l: "chromium_launch example (world ?s) = (Inr 0, \<lparr>launched = 1, closed = [], stored = []\<rparr>)"
    by (simp add: example_def fresh_def)
  have t: "trace ?s = []" by (simp add: fresh_def)
  note i = initBrowser_idempotent [of ?s example]
  from i n l have 1: "initBrowser example ?s =
      (Inr (), ?s\<lparr>client := (client ?s)\<lparr>browser := Some 0\<rparr>,
                  world := \<lparr>launched = 1, closed = [], stored = []\<rparr>,
                  trace := trace ?s @ [Launch (Inr 0)]\<rparr>)" by blast
  from i n l have 2: "trace (run example [InitBrowser, InitBrowser] ?s) = trace ?s @ [Launch (Inr 0)]"
    by blast
  from 1 have "browser (client (snd (initBrowser example ?s))) = Some 0" by simp
  with n l 2 t show ?thesis by simp
qed

text \<open>
  Counterexample to \<^bold>\<open>C6\<close> as stated. After \<open>initBrowser\<close> has stored the
  handle \<open>0\<close>, \<open>cleanup\<close> closes the browser and returns, and the stored
  handle is still there: it has not gone back to absent.
\<close>

theorem cleanup_keeps_handle_counterexample:
  "browser (client (snd (initBrowser example (fresh example_env)))) = Some 0 \<and>
   fst (cleanup example (snd (initBrowser example (fresh example_env)))) = Inr () \<and>
   browser (client (snd (cleanup example (snd (initBrowser example (fresh example_env)))))) \<noteq> None"
  by (simp add: cleanup_def initBrowser_def example_def fresh_def constructor_def Let_def)

text \<open>
  \<^bold>\<open>C6\<close>, as the code has it. With a handle \<open>b\<close> stored, \<open>cleanup\<close>
  calls \<^verbatim>\<open>close\<close> on \<open>b\<close> once and returns or raises what that call
  does; the stored handle stays. A second \<open>cleanup\<close> right after calls
  \<^verbatim>\<open>close\<close> on \<open>b\<close> again and raises exactly when that call raises.
  With no handle stored (as when \<open>initBrowser\<close> was never called),
  \<open>cleanup\<close> does nothing and returns, and so does a second one.
\<close>

theorem cleanup_closes_without_clearing:
  "(\<forall>b. browser (client s) = Some b \<longrightarrow>
      cleanup c s = (fst (browser_close c b (world s)),
                     s\<lparr>world := snd (browser_close c b (world s)), trace := trace s @ [Close b]\<rparr>) \<and>
      browser (client (snd (cleanup c s))) = Some b \<and>
      fst (cleanup c (snd (cleanup c s))) = fst (browser_close c b (world (snd (cleanup c s)))) \<and>
      trace (snd (cleanup c (snd (cleanup c s)))) = trace s @ [Close b, Close b]) \<and>
   (browser (client s) = None \<longrightarrow>
      cleanup c s = (Inr (), s) \<and> cleanup c (snd (cleanup c s)) = (Inr (), s))"
proof (intro conjI allI impI)
  fix b assume b: "browser (client s) = Some b"
  then show first: "cleanup c s = (fst (browser_close c b (world s)),
                     s\<lparr>world := snd (browser_close c b (world s)), trace := trace s @ [Close b]\<rparr>)"
    by (rule cleanup_Some)
  from b show kept: "browser (client (snd (cleanup c s))) = Some b"
    by (simp add: cleanup_browser)
  from cleanup_Some [OF kept, of c]
  show "fst (cleanup c (snd (cleanup c s))) = fst (browser_close c b (world (snd (cleanup c s))))"
    by simp
  from cleanup_Some [OF kept, of c] first
  show "trace (snd (cleanup c (snd (cleanup c s)))) = trace s @ [Close b, Close b]"
    by simp
next
  assume n: "browser (client s) = None"
  then show "cleanup c s = (Inr (), s)" by (rule cleanup_None)
  with n show "cleanup c (snd (cleanup c s)) = (Inr (), s)" by simp
qed

theorem cleanup_closes_without_clearing_witness:
  "browser (client (snd (initBrowser example (fresh example_env)))) = Some 0 \<and>
   cleanup example (snd (initBrowser example (fresh example_env))) =
     (Inr (), (snd (initBrowser example (fresh example_env)))
                \<lparr>world := \<lparr>launched = 1, closed = [0], stored = []\<rparr>,
                 trace := [Launch (Inr 0), Close 0]\<rparr>) \<and>
   browser (client (fresh example_env)) = None \<and>
   cleanup example (fresh example_env) = (Inr (), fresh example_env)"
proof -
  let ?s = "snd (initBrowser example (fresh example_env))"
  have b: "browser (client ?s) = Some 0"
    by (simp add: initBrowser_def example_def fresh_def constructor_def Let_def)
  have n: "browser (client (fresh example_env)) = None"
    by (simp add: fresh_def constructor_def Let_def)
  have w: "browser_close example 0 (world ?s) = (Inr (), \<lparr>launched = 1, closed = [0], stored = []\<rparr>)"
    by (simp add: initBrowser_def example_def fresh_def constructor_def Let_def)
  have t: "trace ?s = [Launch (Inr 0)]"
    by (simp add: initBrowser_def example_def fresh_def constructor_def Let_def)
  from cleanup_closes_without_clearing [of ?s example] b w t
  have 1: "cleanup example ?s =
     (Inr (), ?s\<lparr>world := \<lparr>launched = 1, closed = [0], stored = []\<rparr>,
                 trace := [Launch (Inr 0), Close 0]\<rparr>)"
    by simp
  from cleanup_closes_without_clearing [of "fresh example_env" example] n
  have 2: "cleanup example (fresh example_env) = (Inr (), fresh example_env)" by simp
  from b 1 n 2 show ?thesis by blast
qed

text \<open>
  \<^bold>\<open>C10.\<close> No method clears the stored browser handle: with a handle \<open>b\<close>
  stored, it is still \<open>b\<close> after \<open>initBrowser\<close>, \<open>cleanup\<close>,
  \<open>getEmbeddings\<close>, \<open>initCollection\<close> and after any sequence of
  \<open>initBrowser\<close> and \<open>cleanup\<close> calls, and such a sequence calls the
  launcher no more. An \<open>initBrowser\<close> after a \<open>cleanup\<close> does nothing, and
  two \<open>cleanup\<close> calls in succession call \<^verbatim>\<open>close\<close> on \<open>b\<close>
  twice. From a state with no handle, any sequence of \<open>initBrowser\<close> and
  \<open>cleanup\<close> calls creates at most one browser.
\<close>

theorem browser_handle_never_cleared:
  "(\<forall>b. browser (client s) = Some b \<longrightarrow>
      browser (client (snd (initBrowser c s))) = Some b \<and>
      browser (client (snd (cleanup c s))) = Some b \<and>
      browser (client (snd (getEmbeddings c env text s))) = Some b \<and>
      browser (client (snd (initCollection c n s))) = Some b \<and>
      browser (client (run c calls s)) = Some b \<and>
      filter is_launch (trace (run c calls s)) = filter is_launch (trace s) \<and>
      initBrowser c (snd (cleanup c s)) = (Inr (), snd (cleanup c s)) \<and>
      trace (run c [Cleanup, Cleanup] s) = trace s @ [Close b, Close b]) \<and>
   (browser (client s) = None \<longrightarrow>
      length (filter is_launched (trace (run c calls s)))
        \<le> length (filter is_launched (trace s)) + 1)"
proof (intro conjI allI impI)
  fix b assume b: "browser (client s) = Some b"
  then show "browser (client (snd (initBrowser c s))) = Some b" by (simp add: initBrowser_Some)
  from b show kept: "browser (client (snd (cleanup c s))) = Some b" by (simp add: cleanup_browser)
  from b show "browser (client (snd (getEmbeddings c env text s))) = Some b"
    by (simp add: getEmbeddings_client)
  from b show "browser (client (snd (initCollection c n s))) = Some b"
    by (simp add: initCollection_client)
  from run_present [OF b] show "browser (client (run c calls s)) = Some b"
    and "filter is_launch (trace (run c calls s)) = filter is_launch (trace s)" by simp_all
  from kept show "initBrowser c (snd (cleanup c s)) = (Inr (), snd (cleanup c s))"
    by (rule initBrowser_Some)
  from cleanup_Some [OF kept, of c] cleanup_Some [OF b, of c]
  show "trace (run c [Cleanup, Cleanup] s) = trace s @ [Close b, Close b]" by simp
next
  assume "browser (client s) = None"
  then show "length (filter is_launched (trace (run c calls s)))
        \<le> length (filter is_launched (trace s)) + 1"
    using run_launched [of c calls s] by simp
qed

theorem browser_handle_never_cleared_witness:
  "browser (client (fresh example_env)) = None \<and>
   trace (run example [InitBrowser, Cleanup, InitBrowser, Cleanup] (fresh example_env)) =
     [Launch (Inr 0), Close 0, Close 0] \<and>
   length (filter is_launched
     (trace (run example [InitBrowser, Cleanup, InitBrowser, Cleanup] (fresh example_env)))) \<le> 1"
proof -
  have n: "browser (client (fresh example_env)) = None"
    by (simp add: fresh_def constructor_def Let_def)
  have t: "trace (fresh example_env) = []" by (simp add: fresh_def)
  have r: "trace (run example [InitBrowser, Cleanup, InitBrowser, Cleanup] (fresh example_env)) =
     [Launch (Inr 0), Close 0, Close 0]"
    by (simp add: initBrowser_def cleanup_def example_def fresh_def constructor_def Let_def)
  from browser_handle_never_cleared
    [of "fresh example_env" example _ _ _ "[InitBrowser, Cleanup, InitBrowser, Cleanup]"] n t
  have "length (filter is_launched
     (trace (run example [InitBrowser, Cleanup, InitBrowser, Cleanup] (fresh example_env)))) \<le> 1"
    by simp
  with n r show ?thesis by blast
qed

subsection \<open>Embeddings\<close>

text \<open>
  \<^bold>\<open>C1.\<close> For every input text, every configuration, every state and every behaviour
  of the collaborators, \<open>getEmbeddings\<close> returns a value and raises nothing. Whenever
  the \<^verbatim>\<open>try\<close> block raises, the result is the vector that
  \<open>generateRandomEmbedding 768\<close> makes, after the error and the warning have been
  logged. The block raises, among others, when the HTTP request fails, when the HTTP
  response fails the format test, when neither a base URL nor an embeddings client
  exists, when the SDK request fails and when the SDK response has no
  \<^verbatim>\<open>data[0]\<close>.
\<close>

theorem getEmbeddings_never_raises:
  "(\<exists>v s'. getEmbeddings c env text s = (Inr v, s')) \<and>
   (\<forall>error s1. try_block c env text s = (Inl error, s1) \<longrightarrow>
      getEmbeddings c env text s =
        (Inr (Arr (map Num (fst (generateRandomEmbedding c 768 (world s1))))),
         s1\<lparr>world := snd (generateRandomEmbedding c 768 (world s1)),
            trace := trace s1 @ [ConsoleError error, ConsoleWarn ''Generating fallback random embeddings'']\<rparr>)) \<and>
   (\<forall>base e w'. OPENAI_BASE_URL env = Some base \<and> base \<noteq> [] \<and>
      axios_post c (ollamaUrl base) (request_body text) (request_headers env) (world s) = (Inl e, w') \<longrightarrow>
      fst (try_block c env text s) = Inl (Raise e)) \<and>
   (\<forall>base d e w'. OPENAI_BASE_URL env = Some base \<and> base \<noteq> [] \<and>
      axios_post c (ollamaUrl base) (request_body text) (request_headers env) (world s) = (Inr d, w') \<and>
      extract_embedding d = Inl e \<longrightarrow>
      fst (try_block c env text s) = Inl (Raise e)) \<and>
   (\<not> truthy_env (OPENAI_BASE_URL env) \<and> openaiClient (client s) = None \<longrightarrow>
      try_block c env text s = (Inl (McpError InvalidRequest ''OpenAI API key not configured''), s)) \<and>
   (\<forall>oa e w'. \<not> truthy_env (OPENAI_BASE_URL env) \<and> openaiClient (client s) = Some oa \<and>
      embeddings_create c (request_body text) (world s) = (Inl e, w') \<longrightarrow>
      fst (try_block c env text s) = Inl (Raise e)) \<and>
   (\<forall>oa response e w'. \<not> truthy_env (OPENAI_BASE_URL env) \<and> openaiClient (client s) = Some oa \<and>
      embeddings_create c (request_body text) (world s) = (Inr response, w') \<and>
      data0_embedding response = Inl e \<longrightarrow>
      fst (try_block c env text s) = Inl (Raise e))"
proof (intro conjI allI impI)
  show "\<exists>v s'. getEmbeddings c env text s = (Inr v, s')" by (rule getEmbeddings_returns)
next
  fix error s1 assume "try_block c env text s = (Inl error, s1)"
  then show "getEmbeddings c env text s =
        (Inr (Arr (map Num (fst (generateRandomEmbedding c 768 (world s1))))),
         s1\<lparr>world := snd (generateRandomEmbedding c 768 (world s1)),
            trace := trace s1 @ [ConsoleError error, ConsoleWarn ''Generating fallback random embeddings'']\<rparr>)"
    by (rule getEmbeddings_caught)
next
  fix base e w'
  assume "OPENAI_BASE_URL env = Some base \<and> base \<noteq> [] \<and>
      axios_post c (ollamaUrl base) (request_body text) (request_headers env) (world s) = (Inl e, w')"
  then show "fst (try_block c env text s) = Inl (Raise e)"
    by (simp add: try_block_direct direct_http_fails)
next
  fix base d e w'
  assume "OPENAI_BASE_URL env = Some base \<and> base \<noteq> [] \<and>
      axios_post c (ollamaUrl base) (request_body text) (request_headers env) (world s) = (Inr d, w') \<and>
      extract_embedding d = Inl e"
  then show "fst (try_block c env text s) = Inl (Raise e)"
    by (simp add: try_block_direct direct_http_answers raise_def)
next
  assume "\<not> truthy_env (OPENAI_BASE_URL env) \<and> openaiClient (client s) = None"
  then show "try_block c env text s = (Inl (McpError InvalidRequest ''OpenAI API key not configured''), s)"
    by (simp add: try_block_sdk via_sdk_no_client)
next
  fix oa e w'
  assume "\<not> truthy_env (OPENAI_BASE_URL env) \<and> openaiClient (client s) = Some oa \<and>
      embeddings_create c (request_body text) (world s) = (Inl e, w')"
  then show "fst (try_block c env text s) = Inl (Raise e)"
    by (simp add: try_block_sdk via_sdk_fails)
next
  fix oa response e w'
  assume "\<not> truthy_env (OPENAI_BASE_URL env) \<and> openaiClient (client s) = Some oa \<and>
      embeddings_create c (request_body text) (world s) = (Inr response, w') \<and>
      data0_embedding response = Inl e"
  then show "fst (try_block c env text s) = Inl (Raise e)"
    by (simp add: try_block_sdk via_sdk_answers raise_def)
qed

theorem getEmbeddings_never_raises_witness:
  "\<not> truthy_env (OPENAI_BASE_URL qdrant_only_env) \<and>
   openaiClient (client (fresh qdrant_only_env)) = None \<and>
   fst (getEmbeddings example qdrant_only_env ''hello'' (fresh qdrant_only_env)) =
     Inr (Arr (map Num (fst (generateRandomEmbedding example 768 (world (fresh qdrant_only_env))))))"
proof -
  let ?s = "fresh qdrant_only_env"
  have b: "\<not> truthy_env (OPENAI_BASE_URL qdrant_only_env)" by (simp add: qdrant_only_env_def)
  have n: "openaiClient (client ?s) = None"
    by (simp add: fresh_def constructor_def qdrant_only_env_def Let_def)
  note t = getEmbeddings_never_raises [of example qdrant_only_env "''hello''" ?s]
  from t b n have "try_block example qdrant_only_env ''hello'' ?s =
      (Inl (McpError InvalidRequest ''OpenAI API key not configured''), ?s)" by blast
  with t have "fst (getEmbeddings example qdrant_only_env ''hello'' ?s) =
     Inr (Arr (map Num (fst (generateRandomEmbedding example 768 (world ?s)))))"
    by (metis fst_conv)
  with b n show ?thesis by blast
qed







text \<open>
  \<^bold>\<open>C9.\<close> With a non-empty \<^verbatim>\<open>OPENAI_BASE_URL\<close>,
  \<open>getEmbeddings\<close> first posts to the base URL followed by
  \<^verbatim>\<open>/embeddings\<close> when the base URL ends in \<^verbatim>\<open>/v1\<close>, and by
  \<^verbatim>\<open>/v1/embeddings\<close> otherwise; the body carries the model
  \<^verbatim>\<open>nomic-embed-text\<close> and the text; the headers are the content type and,
  exactly when \<^verbatim>\<open>OPENAI_API_KEY\<close> is a non-empty string, the bearer token.
  Nothing it does afterwards is a call of the SDK. When the response data, its
  \<^verbatim>\<open>data\<close>, \<^verbatim>\<open>data[0]\<close> and
  \<^verbatim>\<open>data[0].embedding\<close> are all truthy, that embedding is the result.
  Otherwise the \<^verbatim>\<open>try\<close> block raises the invalid-response-format
  error and the result is the fallback vector.
\<close>

theorem direct_http_branch:
  assumes "OPENAI_BASE_URL env = Some base" and "base \<noteq> []"
  shows "(\<exists>rest. trace (snd (getEmbeddings c env text s)) =
            trace s @ AxiosPost (ollamaUrl base) (request_body text) (request_headers env) # rest \<and>
            filter is_sdk_call rest = []) \<and>
         ollamaUrl base =
           (if \<exists>p. base = p @ ''/v1'' then base @ ''/embeddings'' else base @ ''/v1/embeddings'') \<and>
         request_body text = \<lparr>model = ''nomic-embed-text'', input = text\<rparr> \<and>
         request_headers env =
           (''Content-Type'', ''application/json'') #
           (if truthy_env (OPENAI_API_KEY env)
            then [(''Authorization'', ''Bearer '' @ the (OPENAI_API_KEY env))] else []) \<and>
         (\<forall>d w' dd d0 emb.
            axios_post c (ollamaUrl base) (request_body text) (request_headers env) (world s) = (Inr d, w') \<and>
            truthy d \<and> js_get d ''data'' = Inr dd \<and> truthy dd \<and> js_first dd = Inr d0 \<and> truthy d0 \<and>
            js_get d0 ''embedding'' = Inr emb \<and> truthy emb \<longrightarrow>
            getEmbeddings c env text s =
              (Inr emb,
               s\<lparr>world := w',
                 trace := trace s @ [AxiosPost (ollamaUrl base) (request_body text) (request_headers env)]\<rparr>)) \<and>
         (\<forall>d w'.
            axios_post c (ollamaUrl base) (request_body text) (request_headers env) (world s) = (Inr d, w') \<and>
            \<not> (\<exists>dd d0 emb. truthy d \<and> js_get d ''data'' = Inr dd \<and> truthy dd \<and>
                  js_first dd = Inr d0 \<and> truthy d0 \<and> js_get d0 ''embedding'' = Inr emb \<and> truthy emb) \<longrightarrow>
            fst (try_block c env text s) =
              Inl (Raise (Error ''Invalid response format from Ollama embeddings API'')) \<and>
            fst (getEmbeddings c env text s) =
              Inr (Arr (map Num (fst (generateRandomEmbedding c 768 w')))))"
proof (intro conjI allI impI)
  show "\<exists>rest. trace (snd (getEmbeddings c env text s)) =
            trace s @ AxiosPost (ollamaUrl base) (request_body text) (request_headers env) # rest \<and>
            filter is_sdk_call rest = []"
    using assms by (rule getEmbeddings_direct_trace)
  show "ollamaUrl base =
           (if \<exists>p. base = p @ ''/v1'' then base @ ''/embeddings'' else base @ ''/v1/embeddings'')"
    by (rule ollamaUrl_cases)
  show "request_body text = \<lparr>model = ''nomic-embed-text'', input = text\<rparr>"
    by (simp add: request_body_def)
  show "request_headers env =
           (''Content-Type'', ''application/json'') #
           (if truthy_env (OPENAI_API_KEY env)
            then [(''Authorization'', ''Bearer '' @ the (OPENAI_API_KEY env))] else [])"
    by (rule request_headers_cases)
next
  fix d w' dd d0 emb
  assume a: "axios_post c (ollamaUrl base) (request_body text) (request_headers env) (world s) = (Inr d, w') \<and>
            truthy d \<and> js_get d ''data'' = Inr dd \<and> truthy dd \<and> js_first dd = Inr d0 \<and> truthy d0 \<and>
            js_get d0 ''embedding'' = Inr emb \<and> truthy emb"
  then have p: "axios_post c (ollamaUrl base) (request_body text) (request_headers env) (world s) = (Inr d, w')"
    by blast
  from a have "extract_embedding d = Inr emb" by (simp add: extract_embedding_present)
  with p assms have "try_block c env text s =
      (Inr emb, s\<lparr>world := w',
                 trace := trace s @ [AxiosPost (ollamaUrl base) (request_body text) (request_headers env)]\<rparr>)"
    by (simp add: try_block_direct direct_http_answers raise_def)
  then show "getEmbeddings c env text s =
              (Inr emb,
               s\<lparr>world := w',
                 trace := trace s @ [AxiosPost (ollamaUrl base) (request_body text) (request_headers env)]\<rparr>)"
    by (rule getEmbeddings_passed)
next
  fix d w'
  assume a: "axios_post c (ollamaUrl base) (request_body text) (request_headers env) (world s) = (Inr d, w') \<and>
            \<not> (\<exists>dd d0 emb. truthy d \<and> js_get d ''data'' = Inr dd \<and> truthy dd \<and>
                  js_first dd = Inr d0 \<and> truthy d0 \<and> js_get d0 ''embedding'' = Inr emb \<and> truthy emb)"
  then have p: "axios_post c (ollamaUrl base) (request_body text) (request_headers env) (world s) = (Inr d, w')"
    and absent: "\<not> (\<exists>dd d0 emb. truthy d \<and> js_get d ''data'' = Inr dd \<and> truthy dd \<and>
                  js_first dd = Inr d0 \<and> truthy d0 \<and> js_get d0 ''embedding'' = Inr emb \<and> truthy emb)"
    by blast+
  from absent have "extract_embedding d = Inl invalid_format" by (rule extract_embedding_absent)
  with p assms have t: "try_block c env text s =
      (Inl (Raise invalid_format),
       s\<lparr>world := w',
         trace := trace s @ [AxiosPost (ollamaUrl base) (request_body text) (request_headers env)]\<rparr>)"
    by (simp add: try_block_direct direct_http_answers raise_def)
  then show "fst (try_block c env text s) =
              Inl (Raise (Error ''Invalid response format from Ollama embeddings API''))"
    by (simp add: invalid_format_def)
  from getEmbeddings_caught [OF t]
  show "fst (getEmbeddings c env text s) = Inr (Arr (map Num (fst (generateRandomEmbedding c 768 w'))))"
    by simp
qed

theorem direct_http_branch_witness:
  "OPENAI_BASE_URL (example_env\<lparr>OPENAI_BASE_URL := Some ''http://localhost:11434/v1''\<rparr>) =
     Some ''http://localhost:11434/v1'' \<and>
   ''http://localhost:11434/v1'' \<noteq> [] \<and>
   getEmbeddings example (example_env\<lparr>OPENAI_BASE_URL := Some ''http://localhost:11434/v1''\<rparr>) ''hello''
       (fresh example_env) =
     (Inr (Arr [Num (Fin 1), Num (Fin 2), Num (Fin 3)]),
      (fresh example_env)
        \<lparr>trace := [AxiosPost ''http://localhost:11434/v1/embeddings''
                     \<lparr>model = ''nomic-embed-text'', input = ''hello''\<rparr>
                     [(''Content-Type'', ''application/json''),
                      (''Authorization'', ''Bearer sk-test'')]]\<rparr>)"
proof -
  let ?env = "example_env\<lparr>OPENAI_BASE_URL := Some ''http://localhost:11434/v1''\<rparr>"
  let ?s = "fresh example_env"
  have b: "OPENAI_BASE_URL ?env = Some ''http://localhost:11434/v1''" by simp
  have ne: "''http://localhost:11434/v1'' \<noteq> []" by simp
  note t = direct_http_branch [OF b ne, of example "''hello''" ?s]
  have slash: "\<exists>p. ''http://localhost:11434/v1'' = p @ ''/v1''"
    by (rule exI [of _ "''http://localhost:11434''"]) simp
  have u: "ollamaUrl ''http://localhost:11434/v1'' = ''http://localhost:11434/v1/embeddings''"
    using t slash by simp
  have bd: "request_body ''hello'' = \<lparr>model = ''nomic-embed-text'', input = ''hello''\<rparr>"
    using t by blast
  have k: "truthy_env (OPENAI_API_KEY ?env)" "the (OPENAI_API_KEY ?env) = ''sk-test''"
    by (simp_all add: example_env_def)
  have h: "request_headers ?env =
      [(''Content-Type'', ''application/json''), (''Authorization'', ''Bearer sk-test'')]"
    using t k by simp
  have p: "axios_post example (ollamaUrl ''http://localhost:11434/v1'') (request_body ''hello'')
             (request_headers ?env) (world ?s) = (Inr short_response, world ?s)"
    by (simp add: example_def)
  have chain: "truthy short_response \<and>
     js_get short_response ''data'' = Inr (Arr [Obj [(''embedding'', Arr [Num (Fin 1), Num (Fin 2), Num (Fin 3)])]]) \<and>
     truthy (Arr [Obj [(''embedding'', Arr [Num (Fin 1), Num (Fin 2), Num (Fin 3)])]]) \<and>
     js_first (Arr [Obj [(''embedding'', Arr [Num (Fin 1), Num (Fin 2), Num (Fin 3)])]]) =
       Inr (Obj [(''embedding'', Arr [Num (Fin 1), Num (Fin 2), Num (Fin 3)])]) \<and>
     truthy (Obj [(''embedding'', Arr [Num (Fin 1), Num (Fin 2), Num (Fin 3)])]) \<and>
     js_get (Obj [(''embedding'', Arr [Num (Fin 1), Num (Fin 2), Num (Fin 3)])]) ''embedding'' =
       Inr (Arr [Num (Fin 1), Num (Fin 2), Num (Fin 3)]) \<and>
     truthy (Arr [Num (Fin 1), Num (Fin 2), Num (Fin 3)])"
    by (simp add: short_response_def)
  from t p chain have "getEmbeddings example ?env ''hello'' ?s =
      (Inr (Arr [Num (Fin 1), Num (Fin 2), Num (Fin 3)]),
       ?s\<lparr>world := world ?s,
          trace := trace ?s @ [AxiosPost (ollamaUrl ''http://localhost:11434/v1'') (request_body ''hello'')
             (request_headers ?env)]\<rparr>)"
    by blast
  then have "getEmbeddings example ?env ''hello'' ?s =
      (Inr (Arr [Num (Fin 1), Num (Fin 2), Num (Fin 3)]),
       ?s\<lparr>trace := [AxiosPost ''http://localhost:11434/v1/embeddings''
                     \<lparr>model = ''nomic-embed-text'', input = ''hello''\<rparr>
                     [(''Content-Type'', ''application/json''),
                      (''Authorization'', ''Bearer sk-test'')]]\<rparr>)"
    unfolding u bd h by (simp add: fresh_def)
  with b ne show ?thesis by blast
qed

subsection \<open>Collections\<close>

text \<open>
  \<^bold>\<open>C4.\<close> If the answer of \<^verbatim>\<open>getCollections\<close> contains the name,
  \<open>initCollection\<close> only makes that query and returns: no
  \<^verbatim>\<open>createCollection\<close> call. For two calls in succession with the same
  name, take a vector store that lists a collection in the next query once it has
  created it or listed it. If the first call returns, the second returns as well and
  only makes the query, and the two calls together make at most one creation call.
\<close>

theorem initCollection_idempotent:
  "(\<forall>cs w1. getCollections c (world s) = (Inr cs, w1) \<and> n \<in> set cs \<longrightarrow>
      initCollection c n s = (Inr (), s\<lparr>world := w1, trace := trace s @ [GetCollections]\<rparr>)) \<and>
   ((\<forall>w w'. createCollection c n collection_options w = (Inr (), w') \<longrightarrow>
        (\<exists>cs w''. getCollections c w' = (Inr cs, w'') \<and> n \<in> set cs)) \<and>
    (\<forall>w cs w'. getCollections c w = (Inr cs, w') \<and> n \<in> set cs \<longrightarrow>
        (\<exists>cs' w''. getCollections c w' = (Inr cs', w'') \<and> n \<in> set cs')) \<and>
    fst (initCollection c n s) = Inr () \<longrightarrow>
      fst (initCollection c n (snd (initCollection c n s))) = Inr () \<and>
      trace (snd (initCollection c n (snd (initCollection c n s)))) =
        trace (snd (initCollection c n s)) @ [GetCollections] \<and>
      length (filter is_create (trace (snd (initCollection c n (snd (initCollection c n s))))))
        \<le> length (filter is_create (trace s)) + 1)"
proof (intro conjI allI impI)
  fix cs w1 assume "getCollections c (world s) = (Inr cs, w1) \<and> n \<in> set cs"
  then show "initCollection c n s = (Inr (), s\<lparr>world := w1, trace := trace s @ [GetCollections]\<rparr>)"
    by (simp add: initCollection_exists)
next
  assume a: "(\<forall>w w'. createCollection c n collection_options w = (Inr (), w') \<longrightarrow>
        (\<exists>cs w''. getCollections c w' = (Inr cs, w'') \<and> n \<in> set cs)) \<and>
    (\<forall>w cs w'. getCollections c w = (Inr cs, w') \<and> n \<in> set cs \<longrightarrow>
        (\<exists>cs' w''. getCollections c w' = (Inr cs', w'') \<and> n \<in> set cs')) \<and>
    fst (initCollection c n s) = Inr ()"
  define s1 where "s1 = snd (initCollection c n s)"
  from a have ok: "initCollection c n s = (Inr (), s1)"
    by (simp add: s1_def prod_eq_iff)
  have "\<exists>cs w''. getCollections c (world s1) = (Inr cs, w'') \<and> n \<in> set cs"
    by (rule initCollection_ok_lists [OF _ _ ok]) (use a in blast)+
  then obtain cs w2 where g: "getCollections c (world s1) = (Inr cs, w2)" and m: "n \<in> set cs"
    by blast
  have second: "initCollection c n s1 = (Inr (), s1\<lparr>world := w2, trace := trace s1 @ [GetCollections]\<rparr>)"
    using g m by (rule initCollection_exists)
  show "fst (initCollection c n s1) = Inr ()" using second by simp
  show "trace (snd (initCollection c n s1)) = trace s1 @ [GetCollections]" using second by simp
  show "length (filter is_create (trace (snd (initCollection c n s1))))
        \<le> length (filter is_create (trace s)) + 1"
    using second initCollection_creations [of c n s] by (simp add: s1_def)
qed

theorem initCollection_idempotent_witness:
  "getCollections example (world ((fresh example_env)\<lparr>world := \<lparr>launched = 0, closed = [], stored = [''docs'']\<rparr>\<rparr>))
     = (Inr [''docs''], \<lparr>launched = 0, closed = [], stored = [''docs'']\<rparr>) \<and>
   fst (initCollection example ''docs'' ((fresh example_env)\<lparr>world := \<lparr>launched = 0, closed = [], stored = [''docs'']\<rparr>\<rparr>)) = Inr () \<and>
   fst (initCollection example ''docs'' (fresh example_env)) = Inr () \<and>
   fst (initCollection example ''docs'' (snd (initCollection example ''docs'' (fresh example_env)))) = Inr () \<and>
   trace (snd (initCollection example ''docs'' (snd (initCollection example ''docs'' (fresh example_env))))) =
     [GetCollections, CreateCollection ''docs'' collection_options, GetCollections]"
proof -
  let ?s = "(fresh example_env)\<lparr>world := \<lparr>launched = 0, closed = [], stored = [''docs'']\<rparr>\<rparr>"
  have g: "getCollections example (world ?s) = (Inr [''docs''], \<lparr>launched = 0, closed = [], stored = [''docs'']\<rparr>)"
    by (simp add: example_def)
  have h1: "\<forall>w w'. createCollection example ''docs'' collection_options w = (Inr (), w') \<longrightarrow>
        (\<exists>cs w''. getCollections example w' = (Inr cs, w'') \<and> ''docs'' \<in> set cs)"
    by (auto simp: example_def)
  have h2: "\<forall>w cs w'. getCollections example w = (Inr cs, w') \<and> ''docs'' \<in> set cs \<longrightarrow>
        (\<exists>cs' w''. getCollections example w' = (Inr cs', w'') \<and> ''docs'' \<in> set cs')"
    by (auto simp: example_def)
  have first: "initCollection example ''docs'' (fresh example_env) =
     (Inr (), (fresh example_env)\<lparr>world := \<lparr>launched = 0, closed = [], stored = [''docs'']\<rparr>,
                trace := [GetCollections, CreateCollection ''docs'' collection_options]\<rparr>)"
    by (simp add: initCollection_def example_def fresh_def)
  have h3: "fst (initCollection example ''docs'' (fresh example_env)) = Inr ()"
    using first by simp
  from initCollection_idempotent [of example ?s "''docs''"] g
  have a: "fst (initCollection example ''docs'' ?s) = Inr ()" by simp
  from initCollection_idempotent [of example "fresh example_env" "''docs''"] h1 h2 h3
  have b: "fst (initCollection example ''docs'' (snd (initCollection example ''docs'' (fresh example_env)))) = Inr () \<and>
      trace (snd (initCollection example ''docs'' (snd (initCollection example ''docs'' (fresh example_env))))) =
        trace (snd (initCollection example ''docs'' (fresh example_env))) @ [GetCollections]"
    by blast
  show ?thesis using g a h3 b first by simp
qed

text \<open>
  Counterexample to \<^bold>\<open>C5\<close> as stated. A vector store that answers the query with
  an \<^verbatim>\<open>Error\<close> whose message is \<^verbatim>\<open>Unauthorized\<close>, the status
  text of a 401, indicates an authorization failure; the test of line 128 is for the
  lower-case \<^verbatim>\<open>unauthorized\<close>, and the caller gets the generic internal
  error, not the one that names the API key.
\<close>

theorem capital_Unauthorized_counterexample:
  "getCollections rejecting (world (fresh example_env)) =
     (Inl (ErrorObj ''Error'' ''Unauthorized''), world (fresh example_env)) \<and>
   fst (initCollection rejecting ''docs'' (fresh example_env)) =
     Inl (McpError InternalError ''Failed to initialize Qdrant cloud collection: Error: Unauthorized'')"
  by (simp add: rejecting_def initCollection_def rethrow_def)

text \<open>
  \<^bold>\<open>C5\<close>, as the code has it. Let \<open>e\<close> be what the query or the creation
  call throws. The class of the error the caller gets is decided by case-sensitive
  substring tests, in this order: for an \<^verbatim>\<open>Error\<close> whose message contains
  \<^verbatim>\<open>unauthorized\<close>, the invalid-request error that names the API key; for
  an \<^verbatim>\<open>Error\<close> whose message contains \<^verbatim>\<open>ECONNREFUSED\<close> or
  \<^verbatim>\<open>ETIMEDOUT\<close>, the internal error that names the URL; for anything
  else (a message that words the failure differently, a thrown value that is no
  \<^verbatim>\<open>Error\<close>), the generic internal error, whose text ends with the
  string conversion of \<open>e\<close>, which for an \<^verbatim>\<open>Error\<close> contains its
  message.
\<close>

theorem initCollection_classifies_errors:
  assumes "getCollections c (world s) = (Inl e, w1) \<or>
           (\<exists>cs. getCollections c (world s) = (Inr cs, w1) \<and> n \<notin> set cs \<and>
                 createCollection c n collection_options w1 = (Inl e, w2))"
  shows "fst (initCollection c n s) =
           Inl (if \<exists>name p q. e = ErrorObj name (p @ ''unauthorized'' @ q)
                then McpError InvalidRequest
                       ''Failed to authenticate with Qdrant cloud. Please check your API key.''
                else if \<exists>name p q. e = ErrorObj name (p @ ''ECONNREFUSED'' @ q) \<or>
                                    e = ErrorObj name (p @ ''ETIMEDOUT'' @ q)
                then McpError InternalError
                       ''Failed to connect to Qdrant cloud. Please check your QDRANT_URL.''
                else McpError InternalError
                       (''Failed to initialize Qdrant cloud collection: '' @ toString e)) \<and>
         (\<forall>name msg. e = ErrorObj name msg \<longrightarrow> (\<exists>p q. toString e = p @ msg @ q))"
proof -
  have r: "fst (initCollection c n s) = Inl (rethrow e)"
    using assms
  proof
    assume "getCollections c (world s) = (Inl e, w1)"
    then show ?thesis by (simp add: initCollection_query_fails)
  next
    assume "\<exists>cs. getCollections c (world s) = (Inr cs, w1) \<and> n \<notin> set cs \<and>
                 createCollection c n collection_options w1 = (Inl e, w2)"
    then obtain cs where "getCollections c (world s) = (Inr cs, w1)" "n \<notin> set cs"
        "createCollection c n collection_options w1 = (Inl e, w2)" by blast
    from initCollection_creates [OF this] show ?thesis by simp
  qed
  have "rethrow e = (if \<exists>name p q. e = ErrorObj name (p @ ''unauthorized'' @ q)
                then McpError InvalidRequest
                       ''Failed to authenticate with Qdrant cloud. Please check your API key.''
                else if \<exists>name p q. e = ErrorObj name (p @ ''ECONNREFUSED'' @ q) \<or>
                                    e = ErrorObj name (p @ ''ETIMEDOUT'' @ q)
                then McpError InternalError
                       ''Failed to connect to Qdrant cloud. Please check your QDRANT_URL.''
                else McpError InternalError
                       (''Failed to initialize Qdrant cloud collection: '' @ toString e))"
  proof (cases e)
    case (ErrorObj name msg)
    have 1: "(\<exists>name' p q. e = ErrorObj name' (p @ ''unauthorized'' @ q)) \<longleftrightarrow> str_includes msg ''unauthorized''"
      using ErrorObj by (auto simp: str_includes_iff)
    have 2: "(\<exists>name' p q. e = ErrorObj name' (p @ ''ECONNREFUSED'' @ q) \<or>
                                    e = ErrorObj name' (p @ ''ETIMEDOUT'' @ q)) \<longleftrightarrow>
          str_includes msg ''ECONNREFUSED'' \<or> str_includes msg ''ETIMEDOUT''"
      using ErrorObj by (auto simp: str_includes_iff)
    show ?thesis unfolding 1 2 using ErrorObj by (simp add: rethrow_def)
  next
    case (NonError v)
    then show ?thesis by (simp add: rethrow_def)
  qed
  with r have classified: "fst (initCollection c n s) =
           Inl (if \<exists>name p q. e = ErrorObj name (p @ ''unauthorized'' @ q)
                then McpError InvalidRequest
                       ''Failed to authenticate with Qdrant cloud. Please check your API key.''
                else if \<exists>name p q. e = ErrorObj name (p @ ''ECONNREFUSED'' @ q) \<or>
                                    e = ErrorObj name (p @ ''ETIMEDOUT'' @ q)
                then McpError InternalError
                       ''Failed to connect to Qdrant cloud. Please check your QDRANT_URL.''
                else McpError InternalError
                       (''Failed to initialize Qdrant cloud collection: '' @ toString e))"
    by simp
  have wrapped: "\<forall>name msg. e = ErrorObj name msg \<longrightarrow> (\<exists>p q. toString e = p @ msg @ q)"
  proof (intro allI impI)
    fix name msg assume e: "e = ErrorObj name msg"
    show "\<exists>p q. toString e = p @ msg @ q"
    proof (cases "name = []")
      case True
      then have "toString e = [] @ msg @ []" using e by simp
      then show ?thesis by blast
    next
      case False
      show ?thesis
      proof (cases "msg = []")
        case True
        then have "toString e = name @ msg @ []" using e False by simp
        then show ?thesis by blast
      next
        case m: False
        then have "toString e = (name @ '': '') @ msg @ []" using e False by simp
        then show ?thesis by blast
      qed
    qed
  qed
  from classified wrapped show ?thesis by (rule conjI)
qed

theorem initCollection_classifies_errors_witness:
  "getCollections refusing (world (fresh example_env)) =
     (Inl (ErrorObj ''Error'' ''connect ECONNREFUSED 127.0.0.1:6333''), world (fresh example_env)) \<and>
   fst (initCollection refusing ''docs'' (fresh example_env)) =
     Inl (McpError InternalError ''Failed to connect to Qdrant cloud. Please check your QDRANT_URL.'')"
proof -
  let ?e = "ErrorObj ''Error'' ''connect ECONNREFUSED 127.0.0.1:6333''"
  have g: "getCollections refusing (world (fresh example_env)) = (Inl ?e, world (fresh example_env))"
    by (simp add: refusing_def)
  have 1: "\<not> (\<exists>name p q. ?e = ErrorObj name (p @ ''unauthorized'' @ q))"
  proof -
    have "\<not> str_includes ''connect ECONNREFUSED 127.0.0.1:6333'' ''unauthorized''" by simp
    then show ?thesis by (simp add: str_includes_iff)
  qed
  have 2: "\<exists>name p q. ?e = ErrorObj name (p @ ''ECONNREFUSED'' @ q) \<or>
                      ?e = ErrorObj name (p @ ''ETIMEDOUT'' @ q)"
  proof -
    have "str_includes ''connect ECONNREFUSED 127.0.0.1:6333'' ''ECONNREFUSED''" by simp
    then obtain p q where "''connect ECONNREFUSED 127.0.0.1:6333'' = p @ ''ECONNREFUSED'' @ q"
      unfolding str_includes_iff by blast
    then show ?thesis by blast
  qed
  from initCollection_classifies_errors [of refusing "fresh example_env" ?e "world (fresh example_env)" "''docs''"] g
  have "fst (initCollection refusing ''docs'' (fresh example_env)) =
           Inl (if \<exists>name p q. ?e = ErrorObj name (p @ ''unauthorized'' @ q)
                then McpError InvalidRequest
                       ''Failed to authenticate with Qdrant cloud. Please check your API key.''
                else if \<exists>name p q. ?e = ErrorObj name (p @ ''ECONNREFUSED'' @ q) \<or>
                                    ?e = ErrorObj name (p @ ''ETIMEDOUT'' @ q)
                then McpError InternalError
                       ''Failed to connect to Qdrant cloud. Please check your QDRANT_URL.''
                else McpError InternalError
                       (''Failed to initialize Qdrant cloud collection: '' @ toString ?e))"
    by blast
  then have "fst (initCollection refusing ''docs'' (fresh example_env)) =
     Inl (McpError InternalError ''Failed to connect to Qdrant cloud. Please check your QDRANT_URL.'')"
    using 1 2 by (simp only: if_True if_False)
  with g show ?thesis by blast
qed

end
